theory Spec2Isabelle
  imports Complex_Main "HOL-Library.Sublist"
begin

section \<open>Values, exceptions and computations\<close>

text \<open>
  The repository is orchestration code around four third-party libraries (a PDF loader, a
  text splitter, a vector database client and an LLM client). The classes of the
  repository are modelled as records, their methods as functions that take the object and
  the outside world and return either a raised exception or a value, together with the
  updated object and world. The third-party calls are not part of the repository: every
  one of them is a field of the record \<open>libs\<close> below, so each theorem holds for
  every behaviour of the libraries unless it names a contract they are assumed to honour.
  Calls to the logger have no effect on any value and are left out.
\<close>

text \<open>
  Python exceptions of class \<open>Exception\<close>. \<open>ValueError\<close> is the one class the
  repository raises itself; \<open>LibraryError\<close> stands for any other \<open>Exception\<close> a
  wrapped library raises. The string is what \<open>str(e)\<close> returns.
\<close>

datatype exn = ValueError string | LibraryError string

fun str_exn :: "exn \<Rightarrow> string" where
  "str_exn (ValueError msg) = msg"
| "str_exn (LibraryError msg) = msg"

record document =
  page_content :: string
  metadata :: "(string \<times> string) list"

datatype message = HumanMessage string | AIMessage string

text \<open>Values stored in the dictionaries that \<open>chat\<close> and \<open>query\<close> return.\<close>

datatype pyval = Str string | Docs "document list" | Msgs "message list"

type_synonym response = "string \<rightharpoonup> pyval"

text \<open>References to objects that live inside the libraries.\<close>

datatype vstore = VStore nat
datatype retriever = Retriever nat
datatype llm = LLM nat
datatype memory = Memory nat
datatype chain = Chain nat
datatype prompt = Prompt nat

record uploaded_file =
  name :: string
  buffer :: string

text \<open>
  A computation over a state \<open>'s\<close>: it returns \<open>Inl e\<close> when the Python code raises
  \<open>e\<close> and \<open>Inr v\<close> when it returns \<open>v\<close>; in both cases the state reached is
  returned too, since effects that happened before a raise are not undone.
\<close>

type_synonym ('a, 's) m = "'s \<Rightarrow> (exn + 'a) \<times> 's"

definition return :: "'a \<Rightarrow> ('a, 's) m" where
  "return v = (\<lambda>s. (Inr v, s))"

definition raise :: "exn \<Rightarrow> ('a, 's) m" where
  "raise e = (\<lambda>s. (Inl e, s))"

definition bind :: "('a, 's) m \<Rightarrow> ('a \<Rightarrow> ('b, 's) m) \<Rightarrow> ('b, 's) m" where
  "bind f g = (\<lambda>s. case f s of (Inl e, s') \<Rightarrow> (Inl e, s') | (Inr v, s') \<Rightarrow> g v s')"

text \<open>\<open>try: f except Exception as e: h e\<close>\<close>

definition try_except :: "('a, 's) m \<Rightarrow> (exn \<Rightarrow> ('a, 's) m) \<Rightarrow> ('a, 's) m" where
  "try_except f h = (\<lambda>s. case f s of (Inl e, s') \<Rightarrow> h e s' | (Inr v, s') \<Rightarrow> (Inr v, s'))"

text \<open>Reading and assigning the fields of \<open>self\<close>, the first component of the state.\<close>

definition get_self :: "('o, 'o \<times> 'w) m" where
  "get_self = (\<lambda>(self, w). (Inr self, (self, w)))"

definition set_self :: "('o \<Rightarrow> 'o) \<Rightarrow> (unit, 'o \<times> 'w) m" where
  "set_self upd = (\<lambda>(self, w). (Inr (), (upd self, w)))"

text \<open>A library call touches the world only.\<close>

definition in_world :: "('a, 'w) m \<Rightarrow> ('a, 'o \<times> 'w) m" where
  "in_world f = (\<lambda>(self, w). case f w of (r, w') \<Rightarrow> (r, (self, w')))"

text \<open>
  A method call on the object held in a field of \<open>self\<close>: \<open>sel\<close> reads the field and
  \<open>upd\<close> stores the object back, with whatever the method assigned to its own fields.
\<close>

definition in_field ::
  "('o \<Rightarrow> 'p) \<Rightarrow> ('p \<Rightarrow> 'o \<Rightarrow> 'o) \<Rightarrow> ('a, 'p \<times> 'w) m \<Rightarrow> ('a, 'o \<times> 'w) m" where
  "in_field sel upd f =
     (\<lambda>(self, w). case f (sel self, w) of (r, (p', w')) \<Rightarrow> (r, (upd p' self, w')))"

section \<open>Configuration (config.py)\<close>

definition LLM_MODEL :: string where
  "LLM_MODEL = ''llama3.2:1b''"

definition LLM_BASE_URL :: string where
  "LLM_BASE_URL = ''http://localhost:11434''"

definition LLM_TEMPERATURE :: real where
  "LLM_TEMPERATURE = 7 / 10"

definition CHUNK_SIZE :: int where
  "CHUNK_SIZE = 1500"

definition CHUNK_OVERLAP :: int where
  "CHUNK_OVERLAP = 200"

definition COLLECTION_NAME :: string where
  "COLLECTION_NAME = ''pdf_documents''"

text \<open>
  The settings that depend on where the program is installed (\<open>PDF_DIR\<close> and
  \<open>CHROMA_PERSIST_DIR\<close> are derived from the directory of config.py) and the settings
  that llm\_handler.py reads from \<open>config\<close> but that the config.py at hand does not
  define (\<open>LLM_PROVIDER\<close> and the Azure credentials) are parameters.
\<close>

record config =
  PDF_DIR :: string
  CHROMA_PERSIST_DIR :: string
  LLM_PROVIDER :: string
  AZURE_OPENAI_API_KEY :: string
  AZURE_OPENAI_ENDPOINT :: string

section \<open>The third-party calls\<close>

text \<open>
  One field for each call the repository makes into a library or the operating system,
  named after the call. \<open>write_file\<close> is \<open>open(path, "wb")\<close> followed by
  \<open>write\<close>; \<open>pdf_loader_load\<close> is \<open>PyPDFLoader(path).load()\<close>;
  \<open>splitter_split_documents\<close> is \<open>split_documents\<close> of the splitter built from
  the chunk size, the overlap and the separators; the two \<open>import\<close> fields are the
  imports that \<open>_create_ollama_llm\<close> and \<open>_create_azure_llm\<close> run when called;
  \<open>messages\<close> is the attribute read \<open>memory.chat_memory.messages\<close>.
\<close>

record 'w libs =
  os_path_join :: "string \<Rightarrow> string \<Rightarrow> string"
  write_file :: "string \<Rightarrow> string \<Rightarrow> (unit, 'w) m"
  pdf_loader_load :: "string \<Rightarrow> (document list, 'w) m"
  splitter_split_documents ::
    "int \<Rightarrow> int \<Rightarrow> string list \<Rightarrow> document list \<Rightarrow> (document list, 'w) m"
  delete_collection :: "string \<Rightarrow> (unit, 'w) m"
  chroma_from_documents :: "document list \<Rightarrow> string \<Rightarrow> (vstore, 'w) m"
  store_add_documents :: "vstore \<Rightarrow> document list \<Rightarrow> (unit, 'w) m"
  similarity_search :: "vstore \<Rightarrow> string \<Rightarrow> int \<Rightarrow> (document list, 'w) m"
  as_retriever :: "vstore \<Rightarrow> int \<Rightarrow> (retriever, 'w) m"
  path_exists :: "string \<Rightarrow> 'w \<Rightarrow> bool"
  rmtree :: "string \<Rightarrow> (unit, 'w) m"
  makedirs :: "string \<Rightarrow> (unit, 'w) m"
  import_langchain_ollama :: "(unit, 'w) m"
  ollama_llm_new :: "real \<Rightarrow> (llm, 'w) m"
  import_langchain_openai :: "(unit, 'w) m"
  azure_chat_openai_new :: "real \<Rightarrow> (llm, 'w) m"
  conversation_buffer_memory_new :: "(memory, 'w) m"
  prompt_template_new :: "string \<Rightarrow> string list \<Rightarrow> (prompt, 'w) m"
  retrieval_qa_from_chain_type :: "llm \<Rightarrow> retriever \<Rightarrow> memory \<Rightarrow> prompt \<Rightarrow> (chain, 'w) m"
  chain_call :: "chain \<Rightarrow> string \<Rightarrow> (response, 'w) m"
  memory_clear :: "memory \<Rightarrow> (unit, 'w) m"
  messages :: "memory \<Rightarrow> 'w \<Rightarrow> message list"

section \<open>LLMHandler (llm\_handler.py)\<close>

text \<open>Python's \<open>str.lower\<close> on ASCII text.\<close>

definition lower_char :: "char \<Rightarrow> char" where
  "lower_char c =
     (let n = (of_char c :: nat) in if 65 \<le> n \<and> n \<le> 90 then char_of (n + 32) else c)"

definition lower :: "string \<Rightarrow> string" where
  "lower s = map lower_char s"

record LLMHandler =
  provider :: string
  temperature :: real
  priv_llm :: "llm option"
  priv_memory :: "memory option"
  priv_qa_chain :: "chain option"

definition LLMHandler_init :: "string \<Rightarrow> real \<Rightarrow> LLMHandler" where
  "LLMHandler_init prov temp =
     \<lparr>provider = lower prov, temperature = temp,
      priv_llm = None, priv_memory = None, priv_qa_chain = None\<rparr>"

definition create_ollama_llm :: "'w libs \<Rightarrow> (llm, LLMHandler \<times> 'w) m" where
  "create_ollama_llm L =
     bind (in_world (import_langchain_ollama L))
       (\<lambda>_. bind get_self (\<lambda>self. in_world (ollama_llm_new L (temperature self))))"

definition create_azure_llm :: "'w libs \<Rightarrow> config \<Rightarrow> (llm, LLMHandler \<times> 'w) m" where
  "create_azure_llm L cfg =
     bind (in_world (import_langchain_openai L))
       (\<lambda>_. if AZURE_OPENAI_API_KEY cfg = [] \<or> AZURE_OPENAI_ENDPOINT cfg = []
            then raise (ValueError (''Azure OpenAI credentials not configured. '' @
                   ''Set AZURE_OPENAI_API_KEY and AZURE_OPENAI_ENDPOINT environment variables.''))
            else bind get_self
                   (\<lambda>self. in_world (azure_chat_openai_new L (temperature self))))"

definition get_llm :: "'w libs \<Rightarrow> config \<Rightarrow> (llm, LLMHandler \<times> 'w) m" where
  "get_llm L cfg =
     bind get_self (\<lambda>self.
       case priv_llm self of
         Some l \<Rightarrow> return l
       | None \<Rightarrow>
           bind (if provider self = ''azure'' then create_azure_llm L cfg
                 else create_ollama_llm L)
             (\<lambda>l. bind (set_self (\<lambda>h. h\<lparr>priv_llm := Some l\<rparr>)) (\<lambda>_. return l)))"

definition get_memory :: "'w libs \<Rightarrow> (memory, LLMHandler \<times> 'w) m" where
  "get_memory L =
     bind get_self (\<lambda>self.
       case priv_memory self of
         Some mem \<Rightarrow> return mem
       | None \<Rightarrow>
           bind (in_world (conversation_buffer_memory_new L))
             (\<lambda>mem. bind (set_self (\<lambda>h. h\<lparr>priv_memory := Some mem\<rparr>)) (\<lambda>_. return mem)))"

definition prompt_template :: string where
  \<open>prompt_template =
''You are a helpful AI assistant that ONLY answers based on the provided context.\<newline>\<newline>CONTEXT FROM DOCUMENTS:\<newline>{context}\<newline>\<newline>USER QUESTION: {question}\<newline>\<newline>INSTRUCTIONS:\<newline>- Answer ONLY using information from the CONTEXT above\<newline>- Be specific and quote relevant details from the context\<newline>- If the context mentions a class name, topic, or subject, state it clearly\<newline>- If the answer is not in the context, say "I don't have that information in the provided documents"\<newline>\<newline>ANSWER: ''\<close>

text \<open>
  The keyword arguments of \<open>RetrievalQA.from_chain_type\<close> are evaluated in the order
  written: \<open>get_llm\<close> before \<open>get_memory\<close>.
\<close>

definition create_qa_chain :: "'w libs \<Rightarrow> config \<Rightarrow> retriever \<Rightarrow> (chain, LLMHandler \<times> 'w) m" where
  "create_qa_chain L cfg retr =
     bind (in_world (prompt_template_new L prompt_template [''context'', ''question'']))
       (\<lambda>pr. bind (get_llm L cfg)
         (\<lambda>l. bind (get_memory L)
           (\<lambda>mem. bind (in_world (retrieval_qa_from_chain_type L l retr mem pr))
             (\<lambda>c. bind (set_self (\<lambda>h. h\<lparr>priv_qa_chain := Some c\<rparr>)) (\<lambda>_. return c)))))"

definition query :: "'w libs \<Rightarrow> string \<Rightarrow> (response, LLMHandler \<times> 'w) m" where
  "query L question =
     bind get_self (\<lambda>self.
       case priv_qa_chain self of
         None \<Rightarrow> raise (ValueError ''QA chain not initialized. Call create_qa_chain first.'')
       | Some c \<Rightarrow> try_except (in_world (chain_call L c question)) (\<lambda>e. raise e))"

text \<open>
  \<open>if self._memory:\<close> tests the truth value of the memory object; an object that is not
  \<open>None\<close> and defines neither \<open>__bool__\<close> nor \<open>__len__\<close> is true.
\<close>

definition clear_memory :: "'w libs \<Rightarrow> (unit, LLMHandler \<times> 'w) m" where
  "clear_memory L =
     bind get_self (\<lambda>self.
       case priv_memory self of
         None \<Rightarrow> return ()
       | Some mem \<Rightarrow> in_world (memory_clear L mem))"

definition get_conversation_history :: "'w libs \<Rightarrow> (message list, LLMHandler \<times> 'w) m" where
  "get_conversation_history L =
     (\<lambda>(self, w). case priv_memory self of
        None \<Rightarrow> (Inr [], (self, w))
      | Some mem \<Rightarrow> (Inr (messages L mem w), (self, w)))"

definition switch_provider :: "string \<Rightarrow> (unit, LLMHandler \<times> 'w) m" where
  "switch_provider prov =
     bind (set_self (\<lambda>h. h\<lparr>provider := lower prov\<rparr>))
       (\<lambda>_. bind (set_self (\<lambda>h. h\<lparr>priv_llm := None\<rparr>))
         (\<lambda>_. set_self (\<lambda>h. h\<lparr>priv_qa_chain := None\<rparr>)))"

section \<open>DocumentProcessor (document\_processor.py)\<close>

record DocumentProcessor =
  chunk_size :: int
  chunk_overlap :: int

text \<open>
  The constructor also builds the text splitter from \<open>chunk_size\<close>,
  \<open>chunk_overlap\<close>, \<open>len\<close> and the separator list; the splitter is called with these
  in \<open>split_documents\<close>.
\<close>

definition DocumentProcessor_init :: "int \<Rightarrow> int \<Rightarrow> DocumentProcessor" where
  "DocumentProcessor_init csize coverlap = \<lparr>chunk_size = csize, chunk_overlap = coverlap\<rparr>"

definition separators :: "string list" where
  "separators = [''\<newline>\<newline>'', ''\<newline>'', '' '', []]"

definition save_uploaded_file :: "'w libs \<Rightarrow> config \<Rightarrow> uploaded_file \<Rightarrow> (string, 'w) m" where
  "save_uploaded_file L cfg f =
     (let file_path = os_path_join L (PDF_DIR cfg) (name f)
      in bind (write_file L file_path (buffer f)) (\<lambda>_. return file_path))"

definition load_pdf :: "'w libs \<Rightarrow> string \<Rightarrow> (document list, 'w) m" where
  "load_pdf L file_path = try_except (pdf_loader_load L file_path) (\<lambda>e. raise e)"

definition split_documents ::
  "'w libs \<Rightarrow> DocumentProcessor \<Rightarrow> document list \<Rightarrow> (document list, 'w) m" where
  "split_documents L self documents =
     splitter_split_documents L (chunk_size self) (chunk_overlap self) separators documents"

definition process_pdf ::
  "'w libs \<Rightarrow> config \<Rightarrow> DocumentProcessor \<Rightarrow> uploaded_file \<Rightarrow> (document list, 'w) m" where
  "process_pdf L cfg self f =
     bind (save_uploaded_file L cfg f)
       (\<lambda>file_path. bind (load_pdf L file_path)
         (\<lambda>documents. split_documents L self documents))"

text \<open>
  The loop of \<open>process_multiple_pdfs\<close>: \<open>all_chunks\<close> is the accumulator that each
  round extends.
\<close>

fun process_loop ::
  "'w libs \<Rightarrow> config \<Rightarrow> DocumentProcessor \<Rightarrow> uploaded_file list \<Rightarrow> document list
     \<Rightarrow> (document list, 'w) m" where
  "process_loop L cfg self [] all_chunks = return all_chunks"
| "process_loop L cfg self (f # fs) all_chunks =
     bind (process_pdf L cfg self f)
       (\<lambda>chunks. process_loop L cfg self fs (all_chunks @ chunks))"

definition process_multiple_pdfs ::
  "'w libs \<Rightarrow> config \<Rightarrow> DocumentProcessor \<Rightarrow> uploaded_file list \<Rightarrow> (document list, 'w) m" where
  "process_multiple_pdfs L cfg self uploaded_files = process_loop L cfg self uploaded_files []"

section \<open>VectorStoreManager (vector\_store.py)\<close>

text \<open>
  The embeddings object and the database client are created once by the constructor and
  never reassigned; the library calls below are calls on them.
\<close>

record VectorStoreManager =
  model_name :: string
  base_url :: string
  persist_directory :: string
  collection_name :: string
  priv_vector_store :: "vstore option"

definition VectorStoreManager_init :: "config \<Rightarrow> string \<Rightarrow> string \<Rightarrow> VectorStoreManager" where
  "VectorStoreManager_init cfg model url =
     \<lparr>model_name = model, base_url = url,
      persist_directory = CHROMA_PERSIST_DIR cfg, collection_name = COLLECTION_NAME,
      priv_vector_store = None\<rparr>"

definition create_vector_store ::
  "'w libs \<Rightarrow> document list \<Rightarrow> (vstore, VectorStoreManager \<times> 'w) m" where
  "create_vector_store L documents =
     try_except
       (bind get_self (\<lambda>self.
          bind (try_except (in_world (delete_collection L (collection_name self)))
                  (\<lambda>e. return ()))
            (\<lambda>_. bind (in_world (chroma_from_documents L documents (collection_name self)))
              (\<lambda>vs. bind (set_self (\<lambda>v. v\<lparr>priv_vector_store := Some vs\<rparr>))
                (\<lambda>_. return vs)))))
       (\<lambda>e. raise e)"

definition add_documents ::
  "'w libs \<Rightarrow> document list \<Rightarrow> (unit, VectorStoreManager \<times> 'w) m" where
  "add_documents L documents =
     bind get_self (\<lambda>self.
       case priv_vector_store self of
         None \<Rightarrow> bind (create_vector_store L documents) (\<lambda>_. return ())
       | Some vs \<Rightarrow> in_world (store_add_documents L vs documents))"

definition clear_vector_store :: "'w libs \<Rightarrow> (unit, VectorStoreManager \<times> 'w) m" where
  "clear_vector_store L =
     try_except
       (bind get_self (\<lambda>self.
          bind (try_except (in_world (delete_collection L (collection_name self)))
                  (\<lambda>e. return ()))
            (\<lambda>_. bind (in_world (\<lambda>w. (Inr (path_exists L (persist_directory self) w), w)))
              (\<lambda>ex. if ex
                     then bind (in_world (rmtree L (persist_directory self)))
                            (\<lambda>_. in_world (makedirs L (persist_directory self)))
                     else return ()))))
       (\<lambda>e. return ())"

definition search ::
  "'w libs \<Rightarrow> string \<Rightarrow> int \<Rightarrow> (document list, VectorStoreManager \<times> 'w) m" where
  "search L q k =
     bind get_self (\<lambda>self.
       case priv_vector_store self of
         None \<Rightarrow> return []
       | Some vs \<Rightarrow> in_world (similarity_search L vs q k))"

definition get_retriever :: "'w libs \<Rightarrow> int \<Rightarrow> (retriever, VectorStoreManager \<times> 'w) m" where
  "get_retriever L k =
     bind get_self (\<lambda>self.
       case priv_vector_store self of
         None \<Rightarrow> raise (ValueError ''No vector store available'')
       | Some vs \<Rightarrow> in_world (as_retriever L vs k))"

section \<open>RAGChatbot (chatbot.py)\<close>

record RAGChatbot =
  document_processor :: DocumentProcessor
  vector_store_manager :: VectorStoreManager
  llm_handler :: LLMHandler
  priv_is_initialized :: bool

definition RAGChatbot_init :: "config \<Rightarrow> RAGChatbot" where
  "RAGChatbot_init cfg =
     \<lparr>document_processor = DocumentProcessor_init CHUNK_SIZE CHUNK_OVERLAP,
      vector_store_manager = VectorStoreManager_init cfg LLM_MODEL LLM_BASE_URL,
      llm_handler = LLMHandler_init (LLM_PROVIDER cfg) LLM_TEMPERATURE,
      priv_is_initialized = False\<rparr>"

text \<open>\<open>self.vector_store_manager.f(...)\<close> and \<open>self.llm_handler.f(...)\<close>\<close>

definition on_vsm :: "('a, VectorStoreManager \<times> 'w) m \<Rightarrow> ('a, RAGChatbot \<times> 'w) m" where
  "on_vsm f = in_field vector_store_manager (\<lambda>v b. b\<lparr>vector_store_manager := v\<rparr>) f"

definition on_llm :: "('a, LLMHandler \<times> 'w) m \<Rightarrow> ('a, RAGChatbot \<times> 'w) m" where
  "on_llm f = in_field llm_handler (\<lambda>h b. b\<lparr>llm_handler := h\<rparr>) f"

text \<open>
  The argument of \<open>process_pdfs\<close> and \<open>add_pdfs\<close> is a list of files or, by the
  \<open>isinstance\<close> test, a single file.
\<close>

datatype uploads = FileList "uploaded_file list" | SingleFile uploaded_file

definition chunks_of :: "'w libs \<Rightarrow> config \<Rightarrow> uploads \<Rightarrow> (document list, RAGChatbot \<times> 'w) m" where
  "chunks_of L cfg up =
     bind get_self (\<lambda>self.
       case up of
         FileList fs \<Rightarrow> in_world (process_multiple_pdfs L cfg (document_processor self) fs)
       | SingleFile f \<Rightarrow> in_world (process_pdf L cfg (document_processor self) f))"

definition process_pdfs :: "'w libs \<Rightarrow> config \<Rightarrow> uploads \<Rightarrow> (bool, RAGChatbot \<times> 'w) m" where
  "process_pdfs L cfg up =
     try_except
       (bind (chunks_of L cfg up)
         (\<lambda>chunks. bind (on_vsm (create_vector_store L chunks))
           (\<lambda>_. bind (on_vsm (get_retriever L 4))
             (\<lambda>retr. bind (on_llm (create_qa_chain L cfg retr))
               (\<lambda>_. bind (set_self (\<lambda>b. b\<lparr>priv_is_initialized := True\<rparr>))
                 (\<lambda>_. return True))))))
       (\<lambda>e. return False)"

definition add_pdfs :: "'w libs \<Rightarrow> config \<Rightarrow> uploads \<Rightarrow> (bool, RAGChatbot \<times> 'w) m" where
  "add_pdfs L cfg up =
     try_except
       (bind (chunks_of L cfg up)
         (\<lambda>chunks. bind (on_vsm (add_documents L chunks))
           (\<lambda>_. bind (on_vsm (get_retriever L 4))
             (\<lambda>retr. bind (on_llm (create_qa_chain L cfg retr))
               (\<lambda>_. return True)))))
       (\<lambda>e. return False)"

definition upload_first :: response where
  "upload_first =
     [''result'' \<mapsto> Str ''Please upload a PDF file first to start chatting.'',
      ''source_documents'' \<mapsto> Docs []]"

definition error_response :: "exn \<Rightarrow> response" where
  "error_response e =
     [''result'' \<mapsto> Str (''Sorry, I encountered an error: '' @ str_exn e),
      ''source_documents'' \<mapsto> Docs []]"

definition chat :: "'w libs \<Rightarrow> string \<Rightarrow> (response, RAGChatbot \<times> 'w) m" where
  "chat L question =
     bind get_self (\<lambda>self.
       if \<not> priv_is_initialized self then return upload_first
       else try_except (on_llm (query L question)) (\<lambda>e. return (error_response e)))"

definition search_documents ::
  "'w libs \<Rightarrow> string \<Rightarrow> int \<Rightarrow> (document list, RAGChatbot \<times> 'w) m" where
  "search_documents L q k = on_vsm (search L q k)"

definition clear_chat_history :: "'w libs \<Rightarrow> (unit, RAGChatbot \<times> 'w) m" where
  "clear_chat_history L = on_llm (clear_memory L)"

definition get_chat_history :: "'w libs \<Rightarrow> (message list, RAGChatbot \<times> 'w) m" where
  "get_chat_history L = on_llm (get_conversation_history L)"

definition reset :: "'w libs \<Rightarrow> (unit, RAGChatbot \<times> 'w) m" where
  "reset L =
     bind (on_vsm (clear_vector_store L))
       (\<lambda>_. bind (on_llm (clear_memory L))
         (\<lambda>_. set_self (\<lambda>b. b\<lparr>priv_is_initialized := False\<rparr>)))"

definition is_ready :: "RAGChatbot \<Rightarrow> bool" where
  "is_ready self = priv_is_initialized self"

section \<open>Sequences of calls on a chatbot\<close>

text \<open>
  The public methods of \<open>RAGChatbot\<close> as calls, and what each returns. \<open>run\<close>
  performs a list of calls one after the other on the same object and records, for each
  call, whether it raised or what it returned; a call that raises leaves the object as it
  was at the raise and the next call goes on from there.
\<close>

datatype call =
    ProcessPdfs uploads
  | AddPdfs uploads
  | Chat string
  | SearchDocuments string int
  | ClearChatHistory
  | GetChatHistory
  | Reset

datatype retval =
    RBool bool
  | RResponse response
  | RDocs "document list"
  | RMessages "message list"
  | RNone

fun invoke :: "'w libs \<Rightarrow> config \<Rightarrow> call \<Rightarrow> (retval, RAGChatbot \<times> 'w) m" where
  "invoke L cfg (ProcessPdfs up) = bind (process_pdfs L cfg up) (\<lambda>ok. return (RBool ok))"
| "invoke L cfg (AddPdfs up) = bind (add_pdfs L cfg up) (\<lambda>ok. return (RBool ok))"
| "invoke L cfg (Chat question) = bind (chat L question) (\<lambda>r. return (RResponse r))"
| "invoke L cfg (SearchDocuments q k) = bind (search_documents L q k) (\<lambda>ds. return (RDocs ds))"
| "invoke L cfg ClearChatHistory = bind (clear_chat_history L) (\<lambda>_. return RNone)"
| "invoke L cfg GetChatHistory = bind (get_chat_history L) (\<lambda>ms. return (RMessages ms))"
| "invoke L cfg Reset = bind (reset L) (\<lambda>_. return RNone)"

type_synonym event = "call \<times> (exn + retval)"

fun run ::
  "'w libs \<Rightarrow> config \<Rightarrow> call list \<Rightarrow> RAGChatbot \<times> 'w \<Rightarrow> event list \<times> (RAGChatbot \<times> 'w)" where
  "run L cfg [] s = ([], s)"
| "run L cfg (c # cs) s =
     (case invoke L cfg c s of
        (r, s') \<Rightarrow> (case run L cfg cs s' of (evs, s'') \<Rightarrow> ((c, r) # evs, s'')))"

text \<open>A call of \<open>process_pdfs\<close> that returned \<open>True\<close>; a call of \<open>reset\<close> that returned.\<close>

fun process_succeeded :: "event \<Rightarrow> bool" where
  "process_succeeded (ProcessPdfs up, Inr (RBool True)) = True"
| "process_succeeded ev = False"

fun reset_completed :: "event \<Rightarrow> bool" where
  "reset_completed (Reset, Inr v) = True"
| "reset_completed ev = False"

text \<open>
  The events after the last completed \<open>reset\<close>, or all of them when there was none.
\<close>

definition since_last_reset :: "event list \<Rightarrow> event list" where
  "since_last_reset evs = rev (takeWhile (\<lambda>ev. \<not> reset_completed ev) (rev evs))"

definition no_upload_since_reset :: "event list \<Rightarrow> bool" where
  "no_upload_since_reset evs = list_all (\<lambda>ev. \<not> process_succeeded ev) (since_last_reset evs)"

text \<open>
  The value of \<open>_is_initialized\<close> after a list of events, from its value before:
  a successful \<open>process_pdfs\<close> sets it, a completed \<open>reset\<close> clears it, every
  other event leaves it.
\<close>

fun flag_after :: "bool \<Rightarrow> event list \<Rightarrow> bool" where
  "flag_after f [] = f"
| "flag_after f (ev # evs) =
     flag_after (if process_succeeded ev then True
                 else if reset_completed ev then False else f) evs"

section \<open>The results of \<open>process_pdf\<close>, file by file\<close>

text \<open>
  \<open>process_pdf\<close> applied to each file in input order, each call in the world the
  previous one left, collecting one chunk list per file.
\<close>

fun process_each ::
  "'w libs \<Rightarrow> config \<Rightarrow> DocumentProcessor \<Rightarrow> uploaded_file list \<Rightarrow> (document list list, 'w) m" where
  "process_each L cfg self [] = return []"
| "process_each L cfg self (f # fs) =
     bind (process_pdf L cfg self f)
       (\<lambda>chunks. bind (process_each L cfg self fs) (\<lambda>rest. return (chunks # rest)))"

section \<open>Contracts of the libraries\<close>

text \<open>
  What the vector database is assumed to do, in terms of an observation \<open>contents\<close> of
  the world: the documents of the collection with a given name, \<open>None\<close> when there is
  no such collection. When \<open>delete_collection\<close> returns, no collection has that name;
  when it raises and there was no collection of that name, there is none afterwards either.
  Nothing is assumed about a deletion that raises while the collection exists.
  \<open>Chroma.from_documents\<close>, when it returns, has added the documents to the collection
  of that name, creating it when it did not exist.
\<close>

definition chroma_contract :: "'w libs \<Rightarrow> ('w \<Rightarrow> string \<Rightarrow> document list option) \<Rightarrow> bool" where
  "chroma_contract L contents \<longleftrightarrow>
     (\<forall>n w w'. delete_collection L n w = (Inr (), w') \<longrightarrow> contents w' n = None) \<and>
     (\<forall>n w e w'. delete_collection L n w = (Inl e, w') \<longrightarrow> contents w n = None \<longrightarrow>
        contents w' n = None) \<and>
     (\<forall>docs n w vs w'. chroma_from_documents L docs n w = (Inr vs, w') \<longrightarrow>
        contents w' n = Some ((case contents w n of None \<Rightarrow> [] | Some old \<Rightarrow> old) @ docs))"

text \<open>
  \<open>store_docs\<close> observes the documents held by a store. \<open>add_documents\<close> of the
  library, when it returns, has put the new documents after the ones already there.
\<close>

definition add_contract :: "'w libs \<Rightarrow> ('w \<Rightarrow> vstore \<Rightarrow> document list) \<Rightarrow> bool" where
  "add_contract L store_docs \<longleftrightarrow>
     (\<forall>vs docs w w'. store_add_documents L vs docs w = (Inr (), w') \<longrightarrow>
        store_docs w' vs = store_docs w vs @ docs)"

text \<open>\<open>similarity_search(query, k=k)\<close>, when it returns, returns at most \<open>k\<close> documents.\<close>

definition search_contract :: "'w libs \<Rightarrow> bool" where
  "search_contract L \<longleftrightarrow>
     (\<forall>vs q k w ds w'. similarity_search L vs q k w = (Inr ds, w') \<longrightarrow> int (length ds) \<le> k)"

text \<open>\<open>memory.clear()\<close>, when it returns, has left the memory without messages.\<close>

definition clear_contract :: "'w libs \<Rightarrow> bool" where
  "clear_contract L \<longleftrightarrow>
     (\<forall>mem w w'. memory_clear L mem w = (Inr (), w') \<longrightarrow> messages L mem w' = [])"

section \<open>An in-memory stand-in for the libraries\<close>

text \<open>
  A small world and library on which the model can be run at concrete inputs: files and
  collections are association lists, a store is the name of its collection, a memory is an
  index into the list of message buffers, and the language model answers every question
  with the same sentence while \<open>llm_available\<close> holds and fails otherwise.
\<close>

record world =
  files :: "(string \<times> string) list"
  collections :: "(string \<times> document list) list"
  stores :: "string list"
  buffers :: "message list list"
  llm_available :: bool

definition contents_of :: "world \<Rightarrow> string \<Rightarrow> document list option" where
  "contents_of w n = map_of (collections w) n"

definition put_collection :: "string \<Rightarrow> document list \<Rightarrow> world \<Rightarrow> world" where
  "put_collection n docs w =
     w\<lparr>collections := (n, docs) # filter (\<lambda>(k, _). k \<noteq> n) (collections w)\<rparr>"

definition store_docs_of :: "world \<Rightarrow> vstore \<Rightarrow> document list" where
  "store_docs_of w vs =
     (case vs of VStore i \<Rightarrow>
        if i < length (stores w)
        then (case contents_of w (stores w ! i) of None \<Rightarrow> [] | Some docs \<Rightarrow> docs)
        else [])"

definition demo_answer :: string where
  "demo_answer = ''I don't have that information in the provided documents''"

definition demo_libs :: "world libs" where
  "demo_libs =
     \<lparr>os_path_join = (\<lambda>d n. d @ ''/'' @ n),
      write_file = (\<lambda>p c w. (Inr (), w\<lparr>files := (p, c) # files w\<rparr>)),
      pdf_loader_load = (\<lambda>p w.
        case map_of (files w) p of
          None \<Rightarrow> (Inl (LibraryError ''File not found''), w)
        | Some c \<Rightarrow>
            if c = [] then (Inl (LibraryError ''Cannot read an empty file''), w)
            else (Inr [\<lparr>page_content = c, metadata = [(''source'', p)]\<rparr>], w)),
      splitter_split_documents = (\<lambda>csize coverlap seps docs w. (Inr docs, w)),
      delete_collection = (\<lambda>n w.
        case contents_of w n of
          None \<Rightarrow> (Inl (ValueError ''Collection does not exist''), w)
        | Some old \<Rightarrow>
            (Inr (), w\<lparr>collections := filter (\<lambda>(k, _). k \<noteq> n) (collections w)\<rparr>)),
      chroma_from_documents = (\<lambda>docs n w.
        (Inr (VStore (length (stores w))),
         (put_collection n ((case contents_of w n of None \<Rightarrow> [] | Some old \<Rightarrow> old) @ docs) w)
           \<lparr>stores := stores w @ [n]\<rparr>)),
      store_add_documents = (\<lambda>vs docs w.
        case vs of VStore i \<Rightarrow>
          if i < length (stores w)
          then (case contents_of w (stores w ! i) of
                  None \<Rightarrow> (Inl (LibraryError ''Collection does not exist''), w)
                | Some old \<Rightarrow> (Inr (), put_collection (stores w ! i) (old @ docs) w))
          else (Inl (LibraryError ''Collection does not exist''), w)),
      similarity_search = (\<lambda>vs q k w.
        if k \<le> 0 then (Inl (ValueError ''Number of requested results must be positive''), w)
        else (Inr (take (nat k) (store_docs_of w vs)), w)),
      as_retriever = (\<lambda>vs k w. case vs of VStore i \<Rightarrow> (Inr (Retriever i), w)),
      path_exists = (\<lambda>p w. True),
      rmtree = (\<lambda>p w. (Inr (), w)),
      makedirs = (\<lambda>p w. (Inr (), w)),
      import_langchain_ollama = (\<lambda>w. (Inr (), w)),
      ollama_llm_new = (\<lambda>t w. (Inr (LLM 0), w)),
      import_langchain_openai = (\<lambda>w. (Inr (), w)),
      azure_chat_openai_new = (\<lambda>t w. (Inr (LLM 1), w)),
      conversation_buffer_memory_new = (\<lambda>w.
        (Inr (Memory (length (buffers w))), w\<lparr>buffers := buffers w @ [[]]\<rparr>)),
      prompt_template_new = (\<lambda>t vars w. (Inr (Prompt 0), w)),
      retrieval_qa_from_chain_type = (\<lambda>l r mem pr w.
        case mem of Memory j \<Rightarrow> (Inr (Chain j), w)),
      chain_call = (\<lambda>c q w.
        case c of Chain j \<Rightarrow>
          if llm_available w \<and> j < length (buffers w)
          then (Inr [''query'' \<mapsto> Str q, ''result'' \<mapsto> Str demo_answer,
                     ''source_documents'' \<mapsto> Docs []],
                w\<lparr>buffers := (buffers w)[j := buffers w ! j @
                     [HumanMessage q, AIMessage demo_answer]]\<rparr>)
          else (Inl (LibraryError ''Connection refused''), w)),
      memory_clear = (\<lambda>mem w.
        case mem of Memory j \<Rightarrow> (Inr (), w\<lparr>buffers := (buffers w)[j := []]\<rparr>)),
      messages = (\<lambda>mem w.
        case mem of Memory j \<Rightarrow> if j < length (buffers w) then buffers w ! j else [])\<rparr>"

text \<open>
  The same library with a database that cannot delete: \<open>delete_collection\<close> raises
  whether or not the collection exists, as a client does whose database is locked or out
  of reach, and leaves the world as it was.
\<close>

definition locked_libs :: "world libs" where
  "locked_libs =
     demo_libs\<lparr>delete_collection :=
       (\<lambda>n w. (Inl (LibraryError ''database is locked''), w))\<rparr>"

text \<open>
  Concrete settings, files, documents, worlds and objects: a fresh world, a world with one
  finished conversation (\<open>demo_talked\<close>), a world whose collection holds an older
  document (\<open>demo_stored\<close>), the world after one upload (\<open>demo_loaded\<close>), and
  chatbots before and after an upload and after a provider switch.
\<close>

definition demo_config :: config where
  "demo_config =
     \<lparr>PDF_DIR = ''pdfFiles'', CHROMA_PERSIST_DIR = ''vectorDB'', LLM_PROVIDER = ''Ollama'',
      AZURE_OPENAI_API_KEY = [], AZURE_OPENAI_ENDPOINT = []\<rparr>"

definition demo_world :: world where
  "demo_world =
     \<lparr>files = [], collections = [], stores = [], buffers = [], llm_available = True\<rparr>"

definition demo_file :: uploaded_file where
  "demo_file = \<lparr>name = ''a.pdf'', buffer = ''Formal methods''\<rparr>"

definition demo_doc :: document where
  "demo_doc = \<lparr>page_content = ''Formal methods'', metadata = [(''source'', ''pdfFiles/a.pdf'')]\<rparr>"

definition demo_old_doc :: document where
  "demo_old_doc = \<lparr>page_content = ''Old text'', metadata = []\<rparr>"

definition demo_vsm :: VectorStoreManager where
  "demo_vsm = VectorStoreManager_init demo_config LLM_MODEL LLM_BASE_URL"

definition demo_handler :: LLMHandler where
  "demo_handler =
     \<lparr>provider = ''ollama'', temperature = LLM_TEMPERATURE, priv_llm = Some (LLM 0),
      priv_memory = Some (Memory 0), priv_qa_chain = Some (Chain 0)\<rparr>"

definition demo_talked :: world where
  "demo_talked = demo_world\<lparr>buffers := [[HumanMessage ''Hi'', AIMessage demo_answer]]\<rparr>"

definition demo_bot :: RAGChatbot where
  "demo_bot =
     (RAGChatbot_init demo_config)\<lparr>llm_handler := demo_handler, priv_is_initialized := True\<rparr>"

definition demo_switched :: RAGChatbot where
  "demo_switched =
     demo_bot\<lparr>llm_handler :=
       demo_handler\<lparr>provider := ''azure'', priv_llm := None, priv_qa_chain := None\<rparr>\<rparr>"

definition demo_stored :: world where
  "demo_stored =
     demo_world\<lparr>collections := [(''pdf_documents'', [demo_old_doc])],
       stores := [''pdf_documents'']\<rparr>"

definition demo_vsm_held :: VectorStoreManager where
  "demo_vsm_held = demo_vsm\<lparr>priv_vector_store := Some (VStore 0)\<rparr>"

definition demo_ready :: RAGChatbot where
  "demo_ready = demo_bot\<lparr>vector_store_manager := demo_vsm_held\<rparr>"

definition demo_loaded :: world where
  "demo_loaded =
     demo_world\<lparr>files := [(''pdfFiles/a.pdf'', ''Formal methods'')],
       collections := [(''pdf_documents'', [demo_doc])],
       stores := [''pdf_documents''], buffers := [[]]\<rparr>"

definition demo_empty_file :: uploaded_file where
  "demo_empty_file = \<lparr>name = ''b.pdf'', buffer = []\<rparr>"

section \<open>Running computations\<close>

lemma return_apply: "return v s = (Inr v, s)"
  by (simp add: return_def)

lemma raise_apply: "raise e s = (Inl e, s)"
  by (simp add: raise_def)

lemma get_self_apply: "get_self (self, w) = (Inr self, (self, w))"
  by (simp add: get_self_def)

lemma set_self_apply: "set_self upd (self, w) = (Inr (), (upd self, w))"
  by (simp add: set_self_def)

lemma in_world_apply: "in_world f (self, w) = (case f w of (r, w') \<Rightarrow> (r, (self, w')))"
  by (simp add: in_world_def)

lemma in_field_apply:
  "in_field sel upd f (self, w) =
     (case f (sel self, w) of (r, (p', w')) \<Rightarrow> (r, (upd p' self, w')))"
  by (simp add: in_field_def)

lemma bind_apply:
  "bind f g s = (case f s of (Inl e, s') \<Rightarrow> (Inl e, s') | (Inr v, s') \<Rightarrow> g v s')"
  by (simp add: bind_def)

lemma try_except_apply:
  "try_except f h s = (case f s of (Inl e, s') \<Rightarrow> h e s' | (Inr v, s') \<Rightarrow> (Inr v, s'))"
  by (simp add: try_except_def)

lemmas m_simps = return_apply raise_apply get_self_apply set_self_apply in_world_apply
  in_field_apply bind_apply try_except_apply

section \<open>The stand-in library honours the contracts\<close>

lemma map_of_filter_neq: "map_of (filter (\<lambda>(k, _). k \<noteq> n) xs) n = None"
  by (induction xs) auto

lemma demo_chroma_contract: "chroma_contract demo_libs contents_of"
  by (auto simp: chroma_contract_def demo_libs_def contents_of_def put_collection_def
      map_of_filter_neq split: option.splits)

lemma demo_add_contract: "add_contract demo_libs store_docs_of"
  by (auto simp: add_contract_def demo_libs_def contents_of_def put_collection_def
      store_docs_of_def split: option.splits vstore.splits if_splits)

lemma demo_search_contract: "search_contract demo_libs"
  by (auto simp: search_contract_def demo_libs_def split: if_splits)

lemma demo_clear_contract: "clear_contract demo_libs"
  by (auto simp: clear_contract_def demo_libs_def split: memory.splits)

section \<open>Evaluating the stand-in\<close>

lemma lower_Ollama: "lower ''Ollama'' = ''ollama''"
  by code_simp

lemma lower_Azure: "lower ''Azure'' = ''azure''"
  by code_simp

lemmas demo_defs = demo_libs_def demo_config_def demo_world_def demo_file_def demo_doc_def
  demo_vsm_def demo_vsm_held_def demo_handler_def demo_bot_def demo_ready_def demo_loaded_def
  demo_talked_def demo_empty_file_def RAGChatbot_init_def LLMHandler_init_def
  VectorStoreManager_init_def DocumentProcessor_init_def COLLECTION_NAME_def lower_Ollama
  contents_of_def put_collection_def Let_def

lemmas method_defs = process_pdfs_def chunks_of_def process_multiple_pdfs_def process_pdf_def
  save_uploaded_file_def load_pdf_def split_documents_def create_vector_store_def
  get_retriever_def create_qa_chain_def get_llm_def create_ollama_llm_def get_memory_def
  on_vsm_def on_llm_def reset_def clear_vector_store_def clear_memory_def

lemma demo_process:
  "process_pdfs demo_libs demo_config (FileList [demo_file])
     (RAGChatbot_init demo_config, demo_world) = (Inr True, (demo_ready, demo_loaded))"
  by (simp add: method_defs m_simps demo_defs)

lemma demo_process_fails:
  "process_pdfs demo_libs demo_config (FileList [demo_empty_file]) (demo_bot, demo_talked) =
     (Inr False, (demo_bot, demo_talked\<lparr>files := [(''pdfFiles/b.pdf'', [])]\<rparr>))"
  by (simp add: method_defs m_simps demo_defs)

lemma demo_reset:
  "reset demo_libs (demo_ready, demo_loaded) =
     (Inr (), (demo_ready\<lparr>priv_is_initialized := False\<rparr>,
               demo_loaded\<lparr>collections := []\<rparr>))"
  by (simp add: method_defs m_simps demo_defs)

lemma demo_run:
  "run demo_libs demo_config [ProcessPdfs (FileList [demo_file]), Reset]
     (RAGChatbot_init demo_config, demo_world) =
   ([(ProcessPdfs (FileList [demo_file]), Inr (RBool True)), (Reset, Inr RNone)],
    (demo_ready\<lparr>priv_is_initialized := False\<rparr>, demo_loaded\<lparr>collections := []\<rparr>))"
  by (simp add: demo_process demo_reset bind_apply return_apply)

lemma demo_no_upload:
  "no_upload_since_reset
     [(ProcessPdfs (FileList [demo_file]), Inr (RBool True)), (Reset, Inr RNone)]"
  by (simp add: no_upload_since_reset_def since_last_reset_def)

lemma demo_create:
  "create_vector_store demo_libs [demo_doc]
     (demo_vsm, demo_world\<lparr>collections := [(''pdf_documents'', [demo_old_doc])]\<rparr>) =
   (Inr (VStore 0),
    (demo_vsm\<lparr>priv_vector_store := Some (VStore 0)\<rparr>,
     demo_world\<lparr>collections := [(''pdf_documents'', [demo_doc])],
       stores := [''pdf_documents'']\<rparr>))"
  by (simp add: create_vector_store_def m_simps demo_libs_def demo_vsm_def
      VectorStoreManager_init_def COLLECTION_NAME_def contents_of_def put_collection_def
      demo_world_def)

lemma demo_add:
  "add_documents demo_libs [demo_doc] (demo_vsm_held, demo_stored) =
     (Inr (), (demo_vsm_held, demo_stored\<lparr>collections :=
       [(''pdf_documents'', [demo_old_doc, demo_doc])]\<rparr>))"
  by (simp add: add_documents_def m_simps demo_vsm_held_def demo_libs_def put_collection_def
      contents_of_def demo_stored_def demo_world_def)

lemma demo_search:
  "search demo_libs ''methods'' 1 (demo_vsm_held, demo_stored\<lparr>collections :=
       [(''pdf_documents'', [demo_old_doc, demo_doc])]\<rparr>) =
     (Inr [demo_old_doc], (demo_vsm_held, demo_stored\<lparr>collections :=
       [(''pdf_documents'', [demo_old_doc, demo_doc])]\<rparr>))"
  by (simp add: search_def m_simps demo_vsm_held_def demo_libs_def store_docs_of_def
      contents_of_def demo_stored_def demo_world_def)

lemma demo_clear:
  "clear_chat_history demo_libs (demo_bot, demo_talked) =
     (Inr (), (demo_bot, demo_world\<lparr>buffers := [[]]\<rparr>))"
  by (simp add: clear_chat_history_def on_llm_def clear_memory_def m_simps
      demo_bot_def demo_handler_def demo_libs_def demo_talked_def demo_world_def)

lemma demo_clear_memory:
  "clear_memory demo_libs (demo_handler, demo_talked) =
     (Inr (), (demo_handler, demo_world\<lparr>buffers := [[]]\<rparr>))"
  by (simp add: clear_memory_def m_simps demo_handler_def demo_libs_def demo_talked_def
      demo_world_def)

section \<open>The readiness flag\<close>

lemma process_pdfs_unfold:
  "process_pdfs L cfg up (b, w) =
     (case chunks_of L cfg up (b, w) of
        (Inl e, s1) \<Rightarrow> (Inr False, s1)
      | (Inr chunks, s1) \<Rightarrow>
          (case on_vsm (create_vector_store L chunks) s1 of
             (Inl e, s2) \<Rightarrow> (Inr False, s2)
           | (Inr vs, s2) \<Rightarrow>
               (case on_vsm (get_retriever L 4) s2 of
                  (Inl e, s3) \<Rightarrow> (Inr False, s3)
                | (Inr retr, s3) \<Rightarrow>
                    (case on_llm (create_qa_chain L cfg retr) s3 of
                       (Inl e, s4) \<Rightarrow> (Inr False, s4)
                     | (Inr c, (b4, w4)) \<Rightarrow>
                         (Inr True, (b4\<lparr>priv_is_initialized := True\<rparr>, w4))))))"
  by (simp add: process_pdfs_def bind_apply try_except_apply return_apply set_self_def
      split: prod.splits sum.splits)

lemma add_pdfs_unfold:
  "add_pdfs L cfg up (b, w) =
     (case chunks_of L cfg up (b, w) of
        (Inl e, s1) \<Rightarrow> (Inr False, s1)
      | (Inr chunks, s1) \<Rightarrow>
          (case on_vsm (add_documents L chunks) s1 of
             (Inl e, s2) \<Rightarrow> (Inr False, s2)
           | (Inr u, s2) \<Rightarrow>
               (case on_vsm (get_retriever L 4) s2 of
                  (Inl e, s3) \<Rightarrow> (Inr False, s3)
                | (Inr retr, s3) \<Rightarrow>
                    (case on_llm (create_qa_chain L cfg retr) s3 of
                       (Inl e, s4) \<Rightarrow> (Inr False, s4)
                     | (Inr c, s4) \<Rightarrow> (Inr True, s4)))))"
  by (simp add: add_pdfs_def bind_apply try_except_apply return_apply
      split: prod.splits sum.splits)

lemma on_vsm_frame:
  assumes "on_vsm f (b, w) = (r, (b', w'))"
  shows "priv_is_initialized b' = priv_is_initialized b"
  using assms by (auto simp: on_vsm_def in_field_apply split: prod.splits)

lemma on_llm_frame:
  assumes "on_llm f (b, w) = (r, (b', w'))"
  shows "priv_is_initialized b' = priv_is_initialized b"
  using assms by (auto simp: on_llm_def in_field_apply split: prod.splits)

lemma chunks_of_frame:
  assumes "chunks_of L cfg up (b, w) = (r, (b', w'))"
  shows "b' = b"
  using assms by (cases up) (auto simp: chunks_of_def m_simps split: prod.splits)

lemma process_pdfs_flag:
  assumes "process_pdfs L cfg up (b, w) = (r, (b', w'))"
  shows "(r = Inr True \<and> priv_is_initialized b') \<or>
         (r = Inr False \<and> priv_is_initialized b' = priv_is_initialized b)"
  using assms unfolding process_pdfs_unfold
  by (auto split: prod.splits sum.splits dest!: on_vsm_frame on_llm_frame chunks_of_frame)

lemma add_pdfs_flag:
  assumes "add_pdfs L cfg up (b, w) = (r, (b', w'))"
  shows "priv_is_initialized b' = priv_is_initialized b"
  using assms unfolding add_pdfs_unfold
  by (auto split: prod.splits sum.splits dest!: on_vsm_frame on_llm_frame chunks_of_frame)

lemma chat_flag:
  assumes "chat L q (b, w) = (r, (b', w'))"
  shows "priv_is_initialized b' = priv_is_initialized b"
  using assms
  by (auto simp: chat_def get_self_apply bind_apply try_except_apply return_apply
      split: prod.splits sum.splits if_splits dest!: on_llm_frame)

lemma reset_flag:
  assumes "reset L (b, w) = (r, (b', w'))"
  shows "(r = Inr () \<and> \<not> priv_is_initialized b') \<or>
         ((\<exists>e. r = Inl e) \<and> priv_is_initialized b' = priv_is_initialized b)"
  using assms
  by (auto simp: reset_def bind_apply set_self_def
      split: prod.splits sum.splits dest!: on_vsm_frame on_llm_frame)

lemma invoke_flag:
  assumes "invoke L cfg c (b, w) = (r, (b', w'))"
  shows "priv_is_initialized b' =
     (if process_succeeded (c, r) then True
      else if reset_completed (c, r) then False else priv_is_initialized b)"
proof (cases c)
  case (ProcessPdfs up)
  obtain r0 b0 w0 where p: "process_pdfs L cfg up (b, w) = (r0, (b0, w0))"
    by (cases "process_pdfs L cfg up (b, w)") auto
  from process_pdfs_flag [OF p] p assms ProcessPdfs show ?thesis
    by (auto simp: bind_apply return_apply)
next
  case (AddPdfs up)
  obtain r0 b0 w0 where p: "add_pdfs L cfg up (b, w) = (r0, (b0, w0))"
    by (cases "add_pdfs L cfg up (b, w)") auto
  from add_pdfs_flag [OF p] p assms AddPdfs show ?thesis
    by (cases r0) (auto simp: bind_apply return_apply)
next
  case (Chat q)
  obtain r0 b0 w0 where p: "chat L q (b, w) = (r0, (b0, w0))"
    by (cases "chat L q (b, w)") auto
  from chat_flag [OF p] p assms Chat show ?thesis
    by (cases r0) (auto simp: bind_apply return_apply)
next
  case (SearchDocuments q k)
  obtain r0 b0 w0 where p: "on_vsm (search L q k) (b, w) = (r0, (b0, w0))"
    by (cases "on_vsm (search L q k) (b, w)") auto
  from on_vsm_frame [OF p] p assms SearchDocuments show ?thesis
    by (cases r0) (auto simp: bind_apply return_apply search_documents_def)
next
  case ClearChatHistory
  obtain r0 b0 w0 where p: "on_llm (clear_memory L) (b, w) = (r0, (b0, w0))"
    by (cases "on_llm (clear_memory L) (b, w)") auto
  from on_llm_frame [OF p] p assms ClearChatHistory show ?thesis
    by (cases r0) (auto simp: bind_apply return_apply clear_chat_history_def)
next
  case GetChatHistory
  obtain r0 b0 w0 where p: "on_llm (get_conversation_history L) (b, w) = (r0, (b0, w0))"
    by (cases "on_llm (get_conversation_history L) (b, w)") auto
  from on_llm_frame [OF p] p assms GetChatHistory show ?thesis
    by (cases r0) (auto simp: bind_apply return_apply get_chat_history_def)
next
  case Reset
  obtain r0 b0 w0 where p: "reset L (b, w) = (r0, (b0, w0))"
    by (cases "reset L (b, w)") auto
  from reset_flag [OF p] p assms Reset show ?thesis
    by (auto simp: bind_apply return_apply)
qed

lemma run_flag:
  "run L cfg cs (b, w) = (evs, (b', w')) \<Longrightarrow>
   priv_is_initialized b' = flag_after (priv_is_initialized b) evs"
proof (induction cs arbitrary: b w evs b' w')
  case Nil
  then show ?case by simp
next
  case (Cons c cs)
  obtain r b1 w1 where i: "invoke L cfg c (b, w) = (r, (b1, w1))"
    by (cases "invoke L cfg c (b, w)") auto
  obtain evs1 b2 w2 where r: "run L cfg cs (b1, w1) = (evs1, (b2, w2))"
    by (cases "run L cfg cs (b1, w1)") auto
  from Cons.prems i r have e: "evs = (c, r) # evs1" "b' = b2"
    by auto
  from Cons.IH [OF r] invoke_flag [OF i] e show ?case
    by simp
qed

lemma flag_after_append:
  "flag_after f (evs @ [ev]) =
     (if process_succeeded ev then True
      else if reset_completed ev then False else flag_after f evs)"
  by (induction evs arbitrary: f) simp_all

lemma not_both: "process_succeeded ev \<Longrightarrow> \<not> reset_completed ev"
  by (cases ev rule: process_succeeded.cases) simp_all

lemma flag_after_upload: "flag_after False evs = (\<not> no_upload_since_reset evs)"
proof (induction evs rule: rev_induct)
  case Nil
  show ?case by (simp add: no_upload_since_reset_def since_last_reset_def)
next
  case (snoc ev evs)
  then show ?case
    by (auto simp: flag_after_append no_upload_since_reset_def since_last_reset_def
        dest: not_both)
qed

section \<open>chat before any upload\<close>

text \<open>
  C1. Take any list of calls of the public methods on a freshly constructed chatbot. If
  among the calls since the last completed \<open>reset\<close> (or since construction, when there
  was none) no \<open>process_pdfs\<close> returned \<open>True\<close>, then \<open>is_ready\<close> is false and
  \<open>chat\<close>, for every question, returns the dictionary with the fixed message under
  \<open>result\<close> and the empty list under \<open>source_documents\<close>; the chatbot, its LLM
  handler and the world are left as they were, whatever the libraries would do if called.
\<close>

theorem chat_before_upload:
  assumes "run L cfg calls (RAGChatbot_init cfg, w0) = (evs, (b, w))"
    and "no_upload_since_reset evs"
  shows "\<not> is_ready b \<and>
     (\<exists>resp. chat L' question (b, w) = (Inr resp, (b, w)) \<and>
        resp ''result'' = Some (Str ''Please upload a PDF file first to start chatting.'') \<and>
        resp ''source_documents'' = Some (Docs []))"
proof -
  have "priv_is_initialized b = flag_after False evs"
    using run_flag [OF assms(1)] by (simp add: RAGChatbot_init_def)
  with assms(2) have n: "\<not> priv_is_initialized b"
    by (simp add: flag_after_upload)
  then have "chat L' question (b, w) = (Inr upload_first, (b, w))"
    by (simp add: chat_def get_self_apply bind_apply return_apply)
  with n show ?thesis
    by (simp add: is_ready_def upload_first_def)
qed

theorem chat_before_upload_witness:
  "run demo_libs demo_config [ProcessPdfs (FileList [demo_file]), Reset]
     (RAGChatbot_init demo_config, demo_world) =
   ([(ProcessPdfs (FileList [demo_file]), Inr (RBool True)), (Reset, Inr RNone)],
    (demo_ready\<lparr>priv_is_initialized := False\<rparr>, demo_loaded\<lparr>collections := []\<rparr>)) \<and>
   no_upload_since_reset
     [(ProcessPdfs (FileList [demo_file]), Inr (RBool True)), (Reset, Inr RNone)] \<and>
   \<not> is_ready (demo_ready\<lparr>priv_is_initialized := False\<rparr>) \<and>
   chat demo_libs ''What is it about?''
     (demo_ready\<lparr>priv_is_initialized := False\<rparr>, demo_loaded\<lparr>collections := []\<rparr>) =
   (Inr [''result'' \<mapsto> Str ''Please upload a PDF file first to start chatting.'',
         ''source_documents'' \<mapsto> Docs []],
    (demo_ready\<lparr>priv_is_initialized := False\<rparr>, demo_loaded\<lparr>collections := []\<rparr>))"
  using chat_before_upload [OF demo_run demo_no_upload, of demo_libs "''What is it about?''"]
    demo_run demo_no_upload
  by (simp add: chat_def get_self_apply bind_apply return_apply upload_first_def is_ready_def)

section \<open>process\_pdfs\<close>

text \<open>
  C2. \<open>process_pdfs\<close> never raises. It returns \<open>True\<close> exactly when chunking,
  the creation of the vector store and the initialisation of the QA chain (taking the
  retriever, then \<open>create_qa_chain\<close>) all return, each in the state the previous step
  left; then \<open>is_ready\<close> holds. Otherwise it returns \<open>False\<close> and \<open>is_ready\<close>
  is what it was before the call.
\<close>

theorem process_pdfs_outcome:
  "\<exists>ok b' w'. process_pdfs L cfg up (b, w) = (Inr ok, (b', w')) \<and>
     (ok \<longleftrightarrow> (\<exists>chunks s1 vs s2 retr s3 c s4.
          chunks_of L cfg up (b, w) = (Inr chunks, s1) \<and>
          on_vsm (create_vector_store L chunks) s1 = (Inr vs, s2) \<and>
          on_vsm (get_retriever L 4) s2 = (Inr retr, s3) \<and>
          on_llm (create_qa_chain L cfg retr) s3 = (Inr c, s4))) \<and>
     (ok \<longrightarrow> is_ready b') \<and> (\<not> ok \<longrightarrow> is_ready b' = is_ready b)"
proof -
  obtain r1 b1 w1 where s1: "chunks_of L cfg up (b, w) = (r1, (b1, w1))"
    by (cases "chunks_of L cfg up (b, w)") auto
  have b1: "b1 = b" using s1 by (rule chunks_of_frame)
  show ?thesis
  proof (cases r1)
    case (Inl e)
    with s1 b1 show ?thesis
      by (auto simp: process_pdfs_def bind_apply try_except_apply return_apply)
  next
    case chunks: (Inr chunks)
    obtain r2 b2 w2 where s2: "on_vsm (create_vector_store L chunks) (b1, w1) = (r2, (b2, w2))"
      by (cases "on_vsm (create_vector_store L chunks) (b1, w1)") auto
    have b2: "priv_is_initialized b2 = priv_is_initialized b"
      using on_vsm_frame [OF s2] b1 by simp
    show ?thesis
    proof (cases r2)
      case (Inl e)
      with s1 chunks s2 b2 show ?thesis
        by (auto simp: process_pdfs_def bind_apply try_except_apply return_apply is_ready_def)
    next
      case vs: (Inr vs)
      obtain r3 b3 w3 where s3: "on_vsm (get_retriever L 4) (b2, w2) = (r3, (b3, w3))"
        by (cases "on_vsm (get_retriever L 4) (b2, w2)") auto
      have b3: "priv_is_initialized b3 = priv_is_initialized b"
        using on_vsm_frame [OF s3] b2 by simp
      show ?thesis
      proof (cases r3)
        case (Inl e)
        with s1 chunks s2 vs s3 b3 show ?thesis
          by (auto simp: process_pdfs_def bind_apply try_except_apply return_apply is_ready_def)
      next
        case retr: (Inr retr)
        obtain r4 b4 w4 where s4: "on_llm (create_qa_chain L cfg retr) (b3, w3) = (r4, (b4, w4))"
          by (cases "on_llm (create_qa_chain L cfg retr) (b3, w3)") auto
        have b4: "priv_is_initialized b4 = priv_is_initialized b"
          using on_llm_frame [OF s4] b3 by simp
        show ?thesis
        proof (cases r4)
          case (Inl e)
          with s1 chunks s2 vs s3 retr s4 b4 show ?thesis
            by (auto simp: process_pdfs_def bind_apply try_except_apply return_apply is_ready_def)
        next
          case (Inr c)
          with s1 chunks s2 vs s3 retr s4 show ?thesis
            by (auto simp: process_pdfs_def bind_apply try_except_apply return_apply
                set_self_apply is_ready_def)
        qed
      qed
    qed
  qed
qed

theorem process_pdfs_outcome_witness:
  "process_pdfs demo_libs demo_config (FileList [demo_file])
     (RAGChatbot_init demo_config, demo_world) = (Inr True, (demo_ready, demo_loaded)) \<and>
   \<not> is_ready (RAGChatbot_init demo_config) \<and> is_ready demo_ready \<and>
   chunks_of demo_libs demo_config (FileList [demo_empty_file]) (demo_bot, demo_talked) =
     (Inl (LibraryError ''Cannot read an empty file''),
      (demo_bot, demo_talked\<lparr>files := [(''pdfFiles/b.pdf'', [])]\<rparr>)) \<and>
   process_pdfs demo_libs demo_config (FileList [demo_empty_file]) (demo_bot, demo_talked) =
     (Inr False, (demo_bot, demo_talked\<lparr>files := [(''pdfFiles/b.pdf'', [])]\<rparr>)) \<and>
   is_ready demo_bot"
  using process_pdfs_outcome [of demo_libs demo_config "FileList [demo_file]"
      "RAGChatbot_init demo_config" demo_world]
    process_pdfs_outcome [of demo_libs demo_config "FileList [demo_empty_file]"
      demo_bot demo_talked]
    demo_process demo_process_fails
  by (simp add: is_ready_def method_defs m_simps demo_defs)

section \<open>split\_documents hands the configured sizes to the splitter\<close>

lemma split_documents_default:
  "split_documents L (document_processor (RAGChatbot_init cfg)) docs =
     splitter_split_documents L 1500 200 [''\<newline>\<newline>'', ''\<newline>'', '' '', []] docs"
  by (simp add: split_documents_def RAGChatbot_init_def DocumentProcessor_init_def
      CHUNK_SIZE_def CHUNK_OVERLAP_def separators_def)

section \<open>create\_vector\_store and the collection it finds\<close>

lemma create_vector_store_unfold:
  assumes d: "delete_collection L (collection_name self) w = (r, w1)"
  shows "create_vector_store L docs (self, w) =
     (case chroma_from_documents L docs (collection_name self) w1 of
        (Inl e, w2) \<Rightarrow> (Inl e, (self, w2))
      | (Inr vs, w2) \<Rightarrow> (Inr vs, (self\<lparr>priv_vector_store := Some vs\<rparr>, w2)))"
proof -
  obtain r2 w2 where f: "chroma_from_documents L docs (collection_name self) w1 = (r2, w2)"
    by (cases "chroma_from_documents L docs (collection_name self) w1")
  show ?thesis
    by (cases r; cases r2) (simp_all add: create_vector_store_def m_simps d f)
qed

text \<open>
  The path the code is written for: with a database that honours \<open>chroma_contract\<close>,
  when the deletion returned, or raised with no collection of that name, and the call
  returns, the collection holds the given documents and nothing else.
\<close>

lemma create_vector_store_after_deletion:
  assumes c: "chroma_contract L contents"
    and d: "delete_collection L (collection_name self) w = (r, w1)"
    and ok: "r = Inr () \<or> contents w (collection_name self) = None"
    and cr: "create_vector_store L docs (self, w) = (Inr vs, (self', w'))"
  shows "contents w' (collection_name self) = Some docs \<and>
     self' = self\<lparr>priv_vector_store := Some vs\<rparr>"
proof -
  have none: "contents w1 (collection_name self) = None"
  proof (cases r)
    case (Inl e)
    with c d ok show ?thesis
      unfolding chroma_contract_def by blast
  next
    case (Inr u)
    with c d show ?thesis
      unfolding chroma_contract_def by simp
  qed
  from cr have f: "chroma_from_documents L docs (collection_name self) w1 = (Inr vs, w')"
    and s: "self' = self\<lparr>priv_vector_store := Some vs\<rparr>"
    by (auto simp: create_vector_store_unfold [OF d] split: prod.splits sum.splits)
  from c f none have "contents w' (collection_name self) = Some docs"
    unfolding chroma_contract_def by fastforce
  with s show ?thesis by simp
qed

text \<open>
  The path the blanket \<open>except Exception: pass\<close> opens: when the deletion raises and
  leaves a collection of that name in place, \<open>create_vector_store\<close> goes on, and when
  it returns the collection holds the old documents followed by the given ones.
\<close>

lemma create_vector_store_after_failed_deletion:
  assumes c: "chroma_contract L contents"
    and d: "delete_collection L (collection_name self) w = (Inl e, w1)"
    and old: "contents w1 (collection_name self) = Some old"
    and cr: "create_vector_store L docs (self, w) = (Inr vs, (self', w'))"
  shows "contents w' (collection_name self) = Some (old @ docs)"
proof -
  from cr have f: "chroma_from_documents L docs (collection_name self) w1 = (Inr vs, w')"
    by (auto simp: create_vector_store_unfold [OF d] split: prod.splits sum.splits)
  with c old show ?thesis
    unfolding chroma_contract_def by fastforce
qed

lemma locked_chroma_contract: "chroma_contract locked_libs contents_of"
  by (auto simp: chroma_contract_def locked_libs_def demo_libs_def contents_of_def
      put_collection_def map_of_filter_neq split: option.splits)

text \<open>
  C4. \<open>create_vector_store\<close> is written to clear the existing collection before it
  builds the new one (its comment reads \<open>Clear existing collection if it exists\<close>, and
  the \<open>except\<close> clause is commented \<open>Collection doesn't exist\<close>), but the clause
  ignores every exception of \<open>delete_collection\<close>, not only that of a missing
  collection. With a database whose deletion raises while the collection holds
  \<open>demo_old_doc\<close>, the call on \<open>[demo_doc]\<close> returns normally and the collection
  holds the old document followed by the new one: the contents are not the given
  documents, and the pre-existing collection was merged into.
\<close>

theorem create_vector_store_merges_when_deletion_fails:
  "contents_of (demo_world\<lparr>collections := [(''pdf_documents'', [demo_old_doc])]\<rparr>)
      ''pdf_documents'' = Some [demo_old_doc] \<and>
   delete_collection locked_libs ''pdf_documents''
     (demo_world\<lparr>collections := [(''pdf_documents'', [demo_old_doc])]\<rparr>) =
   (Inl (LibraryError ''database is locked''),
    demo_world\<lparr>collections := [(''pdf_documents'', [demo_old_doc])]\<rparr>) \<and>
   create_vector_store locked_libs [demo_doc]
     (demo_vsm, demo_world\<lparr>collections := [(''pdf_documents'', [demo_old_doc])]\<rparr>) =
   (Inr (VStore 0),
    (demo_vsm\<lparr>priv_vector_store := Some (VStore 0)\<rparr>,
     demo_world\<lparr>collections := [(''pdf_documents'', [demo_old_doc, demo_doc])],
       stores := [''pdf_documents'']\<rparr>)) \<and>
   contents_of (demo_world\<lparr>collections := [(''pdf_documents'', [demo_old_doc, demo_doc])],
      stores := [''pdf_documents'']\<rparr>) ''pdf_documents'' = Some [demo_old_doc, demo_doc] \<and>
   [demo_old_doc, demo_doc] \<noteq> [demo_doc]"
  by (simp add: create_vector_store_def m_simps locked_libs_def demo_libs_def demo_vsm_def
      VectorStoreManager_init_def COLLECTION_NAME_def contents_of_def put_collection_def
      demo_world_def)

section \<open>add\_documents\<close>

lemma add_documents_None:
  assumes "priv_vector_store self = None"
  shows "add_documents L docs (self, w) =
        (case create_vector_store L docs (self, w) of
           (Inl e, s) \<Rightarrow> (Inl e, s) | (Inr vs, s) \<Rightarrow> (Inr (), s))"
  using assms
  by (simp add: add_documents_def get_self_apply bind_apply return_apply
      split: prod.splits sum.splits)

lemma add_documents_Some:
  assumes c: "add_contract L store_docs" and vs: "priv_vector_store self = Some vs"
    and a: "add_documents L docs (self, w) = (Inr (), (self', w'))"
  shows "self' = self \<and> store_docs w' vs = store_docs w vs @ docs"
proof -
  obtain r w1 where l: "store_add_documents L vs docs w = (r, w1)"
    by (cases "store_add_documents L vs docs w")
  from a vs l have e: "r = Inr ()" "w1 = w'" "self' = self"
    by (auto simp: add_documents_def m_simps)
  with c l have "store_docs w' vs = store_docs w vs @ docs"
    unfolding add_contract_def by blast
  with e show ?thesis by simp
qed

text \<open>
  C5. With no vector store held, \<open>add_documents\<close> has the effect of
  \<open>create_vector_store\<close> on the object and the world and raises what it raises, the
  store returned being dropped. With a store held, and a library whose
  \<open>add_documents\<close> appends (\<open>add_contract\<close>), when the call returns the manager
  is unchanged and the store holds the documents it held, each at its place, followed by
  the given ones.
\<close>

theorem add_documents_cases:
  "(priv_vector_store self = None \<longrightarrow>
      add_documents L docs (self, w) =
        (case create_vector_store L docs (self, w) of
           (Inl e, s) \<Rightarrow> (Inl e, s) | (Inr vs, s) \<Rightarrow> (Inr (), s))) \<and>
   (add_contract L store_docs \<longrightarrow>
      (\<forall>vs self' w'. priv_vector_store self = Some vs \<longrightarrow>
         add_documents L docs (self, w) = (Inr (), (self', w')) \<longrightarrow>
           self' = self \<and> store_docs w' vs = store_docs w vs @ docs \<and>
           (\<forall>i < length (store_docs w vs). store_docs w' vs ! i = store_docs w vs ! i)))"
proof (intro conjI impI allI)
  assume "priv_vector_store self = None"
  then show "add_documents L docs (self, w) =
        (case create_vector_store L docs (self, w) of
           (Inl e, s) \<Rightarrow> (Inl e, s) | (Inr vs, s) \<Rightarrow> (Inr (), s))"
    by (rule add_documents_None)
next
  fix vs self' w'
  assume "add_contract L store_docs" "priv_vector_store self = Some vs"
    "add_documents L docs (self, w) = (Inr (), (self', w'))"
  then show "self' = self"
    by (simp add: add_documents_Some)
next
  fix vs self' w'
  assume "add_contract L store_docs" "priv_vector_store self = Some vs"
    "add_documents L docs (self, w) = (Inr (), (self', w'))"
  then show "store_docs w' vs = store_docs w vs @ docs"
    by (simp add: add_documents_Some)
next
  fix vs self' w' i
  assume "add_contract L store_docs" "priv_vector_store self = Some vs"
    "add_documents L docs (self, w) = (Inr (), (self', w'))"
  then have "store_docs w' vs = store_docs w vs @ docs"
    by (simp add: add_documents_Some)
  moreover assume "i < length (store_docs w vs)"
  ultimately show "store_docs w' vs ! i = store_docs w vs ! i"
    by (simp add: nth_append)
qed

theorem add_documents_cases_witness:
  "priv_vector_store demo_vsm = None \<and>
   add_documents demo_libs [demo_doc]
     (demo_vsm, demo_world\<lparr>collections := [(''pdf_documents'', [demo_old_doc])]\<rparr>) =
   (Inr (),
    (demo_vsm\<lparr>priv_vector_store := Some (VStore 0)\<rparr>,
     demo_world\<lparr>collections := [(''pdf_documents'', [demo_doc])],
       stores := [''pdf_documents'']\<rparr>)) \<and>
   add_contract demo_libs store_docs_of \<and>
   priv_vector_store demo_vsm_held = Some (VStore 0) \<and>
   store_docs_of demo_stored (VStore 0) = [demo_old_doc] \<and>
   add_documents demo_libs [demo_doc] (demo_vsm_held, demo_stored) =
     (Inr (), (demo_vsm_held, demo_stored\<lparr>collections :=
       [(''pdf_documents'', [demo_old_doc, demo_doc])]\<rparr>)) \<and>
   store_docs_of (demo_stored\<lparr>collections :=
       [(''pdf_documents'', [demo_old_doc, demo_doc])]\<rparr>) (VStore 0) =
     [demo_old_doc, demo_doc]"
  using add_documents_cases [of demo_vsm demo_libs "[demo_doc]"
      "demo_world\<lparr>collections := [(''pdf_documents'', [demo_old_doc])]\<rparr>" store_docs_of]
    add_documents_cases [of demo_vsm_held demo_libs "[demo_doc]" demo_stored store_docs_of]
    demo_add_contract demo_add demo_create
  by (simp add: demo_vsm_def VectorStoreManager_init_def demo_vsm_held_def store_docs_of_def
      contents_of_def demo_stored_def demo_world_def)

section \<open>search and get\_retriever\<close>

text \<open>
  C6. With no vector store held, \<open>search\<close> returns the empty list for every query
  and every \<open>k\<close>, touching nothing, while \<open>get_retriever\<close> raises
  \<open>ValueError\<close>. With a store held, and a library whose similarity search returns at
  most \<open>k\<close> documents (\<open>search_contract\<close>), \<open>search\<close> returns at most
  \<open>k\<close> documents when it returns.
\<close>

theorem search_and_retriever:
  "(priv_vector_store self = None \<longrightarrow>
      search L q k (self, w) = (Inr [], (self, w)) \<and>
      get_retriever L k' (self, w) = (Inl (ValueError ''No vector store available''), (self, w))) \<and>
   (search_contract L \<longrightarrow> priv_vector_store self \<noteq> None \<longrightarrow>
      (\<forall>ds s'. search L q k (self, w) = (Inr ds, s') \<longrightarrow> int (length ds) \<le> k))"
proof (intro conjI impI allI)
  assume "priv_vector_store self = None"
  then show "search L q k (self, w) = (Inr [], (self, w))"
    by (simp add: search_def m_simps)
next
  assume "priv_vector_store self = None"
  then show "get_retriever L k' (self, w) = (Inl (ValueError ''No vector store available''), (self, w))"
    by (simp add: get_retriever_def m_simps)
next
  fix ds s'
  assume c: "search_contract L" and "priv_vector_store self \<noteq> None"
    and s: "search L q k (self, w) = (Inr ds, s')"
  then obtain vs where vs: "priv_vector_store self = Some vs"
    by auto
  obtain r w1 where l: "similarity_search L vs q k w = (r, w1)"
    by (cases "similarity_search L vs q k w")
  from s vs l have "r = Inr ds"
    by (auto simp: search_def m_simps)
  with c l show "int (length ds) \<le> k"
    unfolding search_contract_def by blast
qed

theorem search_and_retriever_witness:
  "priv_vector_store demo_vsm = None \<and>
   search demo_libs ''methods'' 4 (demo_vsm, demo_stored) = (Inr [], (demo_vsm, demo_stored)) \<and>
   get_retriever demo_libs 4 (demo_vsm, demo_stored) =
     (Inl (ValueError ''No vector store available''), (demo_vsm, demo_stored)) \<and>
   search_contract demo_libs \<and> priv_vector_store demo_vsm_held \<noteq> None \<and>
   search demo_libs ''methods'' 1 (demo_vsm_held, demo_stored\<lparr>collections :=
       [(''pdf_documents'', [demo_old_doc, demo_doc])]\<rparr>) =
     (Inr [demo_old_doc], (demo_vsm_held, demo_stored\<lparr>collections :=
       [(''pdf_documents'', [demo_old_doc, demo_doc])]\<rparr>)) \<and>
   int (length [demo_old_doc]) \<le> 1"
  using search_and_retriever [of demo_vsm demo_libs "''methods''" 4 demo_stored 4]
    search_and_retriever [of demo_vsm_held demo_libs "''methods''" 1
      "demo_stored\<lparr>collections := [(''pdf_documents'', [demo_old_doc, demo_doc])]\<rparr>"]
    demo_search_contract demo_search
  by (simp add: demo_vsm_def VectorStoreManager_init_def demo_vsm_held_def)

section \<open>chat catches what the query raises\<close>

lemma query_no_chain:
  "priv_qa_chain h = None \<Longrightarrow>
   query L q (h, w) = (Inl (ValueError ''QA chain not initialized. Call create_qa_chain first.''), (h, w))"
  by (simp add: query_def m_simps)

lemma error_response_fields:
  "error_response e ''result'' = Some (Str (''Sorry, I encountered an error: '' @ str_exn e)) \<and>
   error_response e ''source_documents'' = Some (Docs [])"
  by (simp add: error_response_def)

text \<open>
  C7. Once \<open>_is_initialized\<close> is set, \<open>chat\<close> returns for every question and
  never raises. When \<open>LLMHandler.query\<close> raises \<open>e\<close>, the dictionary returned has
  under \<open>result\<close> the text \<open>Sorry, I encountered an error: \<close> followed by
  \<open>str(e)\<close>, and under \<open>source_documents\<close> the empty list; when the query
  returns, \<open>chat\<close> returns its response. \<open>query\<close> raises a \<open>ValueError\<close> when
  the handler has no QA chain.
\<close>

theorem chat_never_raises:
  assumes "priv_is_initialized b"
  shows "\<exists>resp s'. chat L q (b, w) = (Inr resp, s') \<and>
     (\<forall>e h' w'. query L q (llm_handler b, w) = (Inl e, (h', w')) \<longrightarrow>
        s' = (b\<lparr>llm_handler := h'\<rparr>, w') \<and>
        (\<exists>msg. resp ''result'' = Some (Str msg) \<and> sublist (str_exn e) msg) \<and>
        resp ''result'' = Some (Str (''Sorry, I encountered an error: '' @ str_exn e)) \<and>
        resp ''source_documents'' = Some (Docs [])) \<and>
     (\<forall>r h' w'. query L q (llm_handler b, w) = (Inr r, (h', w')) \<longrightarrow>
        resp = r \<and> s' = (b\<lparr>llm_handler := h'\<rparr>, w')) \<and>
     (priv_qa_chain (llm_handler b) = None \<longrightarrow>
        query L q (llm_handler b, w) =
          (Inl (ValueError ''QA chain not initialized. Call create_qa_chain first.''),
           (llm_handler b, w)))"
proof -
  obtain r h1 w1 where qr: "query L q (llm_handler b, w) = (r, (h1, w1))"
    by (cases "query L q (llm_handler b, w)") auto
  have nochain: "priv_qa_chain (llm_handler b) = None \<longrightarrow>
        query L q (llm_handler b, w) =
          (Inl (ValueError ''QA chain not initialized. Call create_qa_chain first.''),
           (llm_handler b, w))"
    by (simp add: query_no_chain)
  show ?thesis
  proof (cases r)
    case (Inl e)
    have sub: "sublist (str_exn e) (''Sorry, I encountered an error: '' @ str_exn e)"
      by (rule suffix_imp_sublist) (rule suffixI, rule refl)
    from Inl qr assms
    have c: "chat L q (b, w) = (Inr (error_response e), (b\<lparr>llm_handler := h1\<rparr>, w1))"
      by (simp add: chat_def m_simps on_llm_def)
    have "\<exists>msg. error_response e ''result'' = Some (Str msg) \<and> sublist (str_exn e) msg"
      using sub error_response_fields [of e] by blast
    with c Inl qr nochain error_response_fields [of e] show ?thesis
      by simp
  next
    case (Inr resp)
    with qr assms
    have "chat L q (b, w) = (Inr resp, (b\<lparr>llm_handler := h1\<rparr>, w1))"
      by (simp add: chat_def m_simps on_llm_def)
    with Inr qr nochain show ?thesis
      by simp
  qed
qed

theorem chat_never_raises_witness:
  "priv_is_initialized demo_switched \<and>
   priv_qa_chain (llm_handler demo_switched) = None \<and>
   chat demo_libs ''What is it about?'' (demo_switched, demo_talked) =
     (Inr [''result'' \<mapsto> Str (''Sorry, I encountered an error: '' @
             ''QA chain not initialized. Call create_qa_chain first.''),
           ''source_documents'' \<mapsto> Docs []],
      (demo_switched, demo_talked)) \<and>
   priv_is_initialized demo_bot \<and>
   query demo_libs ''What is it about?''
     (llm_handler demo_bot, demo_talked\<lparr>llm_available := False\<rparr>) =
     (Inl (LibraryError ''Connection refused''),
      (llm_handler demo_bot, demo_talked\<lparr>llm_available := False\<rparr>)) \<and>
   chat demo_libs ''What is it about?'' (demo_bot, demo_talked\<lparr>llm_available := False\<rparr>) =
     (Inr [''result'' \<mapsto> Str (''Sorry, I encountered an error: '' @ ''Connection refused''),
           ''source_documents'' \<mapsto> Docs []],
      (demo_bot, demo_talked\<lparr>llm_available := False\<rparr>))"
  using chat_never_raises [of demo_switched demo_libs "''What is it about?''" demo_talked]
    chat_never_raises [of demo_bot demo_libs "''What is it about?''"
      "demo_talked\<lparr>llm_available := False\<rparr>"]
  by (simp add: chat_def m_simps on_llm_def query_def error_response_def demo_switched_def
      demo_bot_def demo_handler_def demo_libs_def demo_talked_def demo_world_def)

section \<open>Clearing the conversation\<close>

lemma clear_memory_history:
  assumes "clear_contract L" and "clear_memory L (h, w) = (Inr (), (h', w'))"
  shows "get_conversation_history L (h', w') = (Inr [], (h', w'))"
proof (cases "priv_memory h")
  case None
  with assms(2) show ?thesis
    by (auto simp: clear_memory_def m_simps get_conversation_history_def)
next
  case (Some mem)
  obtain r w1 where c: "memory_clear L mem w = (r, w1)"
    by (cases "memory_clear L mem w")
  from assms(2) Some c have "h' = h" "w1 = w'" "r = Inr ()"
    by (auto simp: clear_memory_def m_simps)
  with assms(1) c have "messages L mem w' = []"
    by (simp add: clear_contract_def)
  with Some \<open>h' = h\<close> show ?thesis
    by (simp add: get_conversation_history_def)
qed

text \<open>
  C8. With a memory whose \<open>clear\<close> leaves no messages (\<open>clear_contract\<close>): when
  \<open>clear_chat_history\<close> has returned, \<open>get_chat_history\<close> returns the empty list,
  and likewise \<open>get_conversation_history\<close> after \<open>clear_memory\<close> on the handler;
  and \<open>get_chat_history\<close> returns the empty list when no memory was ever created.
\<close>

theorem history_empty_after_clear:
  assumes "clear_contract L"
  shows "(clear_chat_history L (b, w) = (Inr (), (b', w')) \<longrightarrow>
            get_chat_history L (b', w') = (Inr [], (b', w'))) \<and>
         (clear_memory L (h, w) = (Inr (), (h', w')) \<longrightarrow>
            get_conversation_history L (h', w') = (Inr [], (h', w'))) \<and>
         (priv_memory (llm_handler b) = None \<longrightarrow>
            get_chat_history L (b, w) = (Inr [], (b, w)))"
proof (intro conjI impI)
  assume a: "clear_chat_history L (b, w) = (Inr (), (b', w'))"
  obtain r h1 w1 where c: "clear_memory L (llm_handler b, w) = (r, (h1, w1))"
    by (cases "clear_memory L (llm_handler b, w)") auto
  from a c have r: "r = Inr ()" and b': "b' = b\<lparr>llm_handler := h1\<rparr>" and w': "w1 = w'"
    by (auto simp: clear_chat_history_def on_llm_def in_field_apply)
  from clear_memory_history [OF assms] c r w'
  have "get_conversation_history L (h1, w') = (Inr [], (h1, w'))"
    by simp
  with b' show "get_chat_history L (b', w') = (Inr [], (b', w'))"
    by (simp add: get_chat_history_def on_llm_def in_field_apply)
next
  assume "clear_memory L (h, w) = (Inr (), (h', w'))"
  with assms show "get_conversation_history L (h', w') = (Inr [], (h', w'))"
    by (rule clear_memory_history)
next
  assume "priv_memory (llm_handler b) = None"
  then show "get_chat_history L (b, w) = (Inr [], (b, w))"
    by (simp add: get_chat_history_def on_llm_def in_field_apply get_conversation_history_def)
qed

theorem history_empty_after_clear_witness:
  "clear_contract demo_libs \<and>
   get_chat_history demo_libs (demo_bot, demo_talked) =
     (Inr [HumanMessage ''Hi'', AIMessage demo_answer], (demo_bot, demo_talked)) \<and>
   clear_chat_history demo_libs (demo_bot, demo_talked) =
     (Inr (), (demo_bot, demo_world\<lparr>buffers := [[]]\<rparr>)) \<and>
   get_chat_history demo_libs (demo_bot, demo_world\<lparr>buffers := [[]]\<rparr>) =
     (Inr [], (demo_bot, demo_world\<lparr>buffers := [[]]\<rparr>)) \<and>
   clear_memory demo_libs (demo_handler, demo_talked) =
     (Inr (), (demo_handler, demo_world\<lparr>buffers := [[]]\<rparr>)) \<and>
   get_conversation_history demo_libs (demo_handler, demo_world\<lparr>buffers := [[]]\<rparr>) =
     (Inr [], (demo_handler, demo_world\<lparr>buffers := [[]]\<rparr>)) \<and>
   priv_memory (llm_handler (RAGChatbot_init demo_config)) = None \<and>
   get_chat_history demo_libs (RAGChatbot_init demo_config, demo_talked) =
     (Inr [], (RAGChatbot_init demo_config, demo_talked))"
  using history_empty_after_clear [OF demo_clear_contract, of demo_bot demo_talked demo_bot
      "demo_world\<lparr>buffers := [[]]\<rparr>" demo_handler demo_handler]
    history_empty_after_clear [OF demo_clear_contract, of "RAGChatbot_init demo_config"
      demo_talked]
    demo_clear_contract demo_clear demo_clear_memory
  by (simp add: get_chat_history_def on_llm_def in_field_apply get_conversation_history_def
      demo_bot_def demo_handler_def demo_libs_def demo_talked_def demo_world_def
      RAGChatbot_init_def LLMHandler_init_def)

section \<open>process\_multiple\_pdfs concatenates\<close>

lemma process_loop_acc:
  "process_loop L cfg self fs acc w =
     bind (process_each L cfg self fs) (\<lambda>cs. return (acc @ concat cs)) w"
proof (induction fs arbitrary: acc w)
  case Nil
  show ?case by (simp add: m_simps)
next
  case (Cons f fs)
  obtain r w1 where p: "process_pdf L cfg self f w = (r, w1)"
    by (cases "process_pdf L cfg self f w")
  show ?case
  proof (cases r)
    case (Inl e)
    with p show ?thesis by (simp add: bind_apply)
  next
    case (Inr chunks)
    obtain r2 w2 where q: "process_each L cfg self fs w1 = (r2, w2)"
      by (cases "process_each L cfg self fs w1")
    from Inr p q Cons.IH [of "acc @ chunks" w1] show ?thesis
      by (cases r2) (simp_all add: bind_apply return_apply)
  qed
qed

lemma process_loop_append:
  "process_loop L cfg self (xs @ ys) acc w =
     bind (process_loop L cfg self xs acc) (\<lambda>a. process_loop L cfg self ys a) w"
proof (induction xs arbitrary: acc w)
  case Nil
  show ?case by (simp add: m_simps)
next
  case (Cons f fs)
  obtain r w1 where p: "process_pdf L cfg self f w = (r, w1)"
    by (cases "process_pdf L cfg self f w")
  from p Cons.IH show ?case
    by (cases r) (simp_all add: bind_apply)
qed

text \<open>
  C9. For every list of uploaded files, \<open>process_multiple_pdfs\<close> returns the
  concatenation, in input order, of what \<open>process_pdf\<close> returns for each file (and
  raises what the first failing \<open>process_pdf\<close> raises); it maps the concatenation of
  two input lists to the concatenation of the two chunk lists, the second list being
  processed in the world the first one left; for the empty list it returns the empty list.
\<close>

theorem process_multiple_pdfs_concat:
  "process_multiple_pdfs L cfg self fs w =
     bind (process_each L cfg self fs) (\<lambda>cs. return (concat cs)) w \<and>
   process_multiple_pdfs L cfg self (xs @ ys) w =
     bind (process_multiple_pdfs L cfg self xs)
       (\<lambda>a. bind (process_multiple_pdfs L cfg self ys) (\<lambda>b. return (a @ b))) w \<and>
   process_multiple_pdfs L cfg self [] w = (Inr [], w)"
proof (intro conjI)
  show "process_multiple_pdfs L cfg self [] w = (Inr [], w)"
    by (simp add: process_multiple_pdfs_def return_apply)
  show "process_multiple_pdfs L cfg self fs w =
     bind (process_each L cfg self fs) (\<lambda>cs. return (concat cs)) w"
    by (simp add: process_multiple_pdfs_def process_loop_acc)
  obtain r w1 where p: "process_loop L cfg self xs [] w = (r, w1)"
    by (cases "process_loop L cfg self xs [] w")
  show "process_multiple_pdfs L cfg self (xs @ ys) w =
     bind (process_multiple_pdfs L cfg self xs)
       (\<lambda>a. bind (process_multiple_pdfs L cfg self ys) (\<lambda>b. return (a @ b))) w"
  proof (cases r)
    case (Inl e)
    with p show ?thesis
      by (simp add: process_multiple_pdfs_def process_loop_append bind_apply)
  next
    case (Inr a)
    obtain r2 w2 where q: "process_each L cfg self ys w1 = (r2, w2)"
      by (cases "process_each L cfg self ys w1")
    from Inr p q show ?thesis
      by (cases r2)
        (simp_all add: process_multiple_pdfs_def process_loop_append bind_apply
          process_loop_acc [of L cfg self ys a] process_loop_acc [of L cfg self ys "[]"]
          return_apply)
  qed
qed

section \<open>switch\_provider keeps the conversation\<close>

text \<open>
  C10. \<open>switch_provider\<close> stores the lowercased provider name and sets the cached LLM
  and the QA chain to \<open>None\<close>; every other field of the handler, the memory among
  them, and the world are as before, so \<open>get_conversation_history\<close> returns the same
  list after the switch as before it.
\<close>

theorem switch_provider_frame:
  "switch_provider prov (h, w) =
     (Inr (), (h\<lparr>provider := lower prov, priv_llm := None, priv_qa_chain := None\<rparr>, w)) \<and>
   priv_memory (h\<lparr>provider := lower prov, priv_llm := None, priv_qa_chain := None\<rparr>) =
     priv_memory h \<and>
   fst (get_conversation_history L
          (h\<lparr>provider := lower prov, priv_llm := None, priv_qa_chain := None\<rparr>, w)) =
     fst (get_conversation_history L (h, w))"
  by (simp add: switch_provider_def m_simps get_conversation_history_def split: option.splits)

end
